theory Spec2Isabelle
  imports Complex_Main "HOL-Library.AList"
begin

section \<open>The session hub of server/main.py\<close>

text \<open>
  The hub keeps four module-level dictionaries (\<open>players\<close>, \<open>connections\<close>,
  \<open>pending_games\<close>, \<open>active_games\<close>), runs one coroutine \<open>ws_endpoint\<close> per websocket
  and one coroutine \<open>game_loop\<close> per accepted invite.

  Modelling decisions, all of them visible in the definitions below:
  \<^item> Python dictionaries are association lists in insertion order: \<open>d[k] = v\<close> is
    \<open>AList.update\<close> (in place, or appended), \<open>d.pop(k, None)\<close> is \<open>AList.delete\<close>,
    \<open>d.get(k)\<close> is \<open>map_of\<close>.
  \<^item> Python numbers (\<open>int\<close> and \<open>float\<close>) are exact rationals. Rounding, overflow to
    \<open>inf\<close> and \<open>nan\<close> of IEEE doubles are outside the model; \<open>1.05\<close> is \<open>21/20\<close>.
  \<^item> A websocket object is named by a natural number. The local variables of the
    coroutine serving websocket \<open>w\<close> are \<open>conn s w\<close>; the \<open>player\<close> dictionary created by
    that coroutine is the field \<open>h_player\<close> there, and every other reference to the same
    dictionary (\<open>players[pid]\<close>, \<open>pending["host"]\<close>) is the name \<open>w\<close>.
  \<^item> What the transport does is an input of each step: \<open>ok w\<close> says whether
    \<open>ws.send_text\<close> on \<open>w\<close> returns (otherwise it raises).
  \<^item> A step (one received message handled to the next \<open>receive_text\<close>, or one
    iteration of a game loop) is atomic: no other coroutine runs inside it.
  \<^item> A raised exception is a value of type \<open>error\<close>; the two \<open>except\<close> clauses of
    \<open>ws_endpoint\<close> have the same body, \<open>cleanup\<close>.
  \<^item> A received message is any JSON value, and the definitions say what the code does
    with each (a field of an unexpected type mostly raises, which ends in \<open>cleanup\<close>).
    The properties are stated for messages whose fields, when present, have the type the
    protocol gives them: numbers for coordinates, strings for names, contents and ids.
\<close>

subsection \<open>JSON values and the Python operations applied to them\<close>

datatype jval =
    JNull
  | JBool bool
  | JNum rat
  | JStr string
  | JArr "jval list"
  | JObj "(string \<times> jval) list"

datatype error =
    AttributeError
  | KeyError
  | TypeError
  | ValueError
  | SendFailed

text \<open>Truth value of a JSON value in a Python condition (\<open>x or y\<close>, \<open>if x and ...\<close>).\<close>

fun truthy :: "jval \<Rightarrow> bool" where
  "truthy JNull = False"
| "truthy (JBool b) = b"
| "truthy (JNum q) = (q \<noteq> 0)"
| "truthy (JStr s) = (s \<noteq> [])"
| "truthy (JArr xs) = (xs \<noteq> [])"
| "truthy (JObj kv) = (kv \<noteq> [])"

text \<open>\<open>d.get(k, default)\<close> on the fields of a dictionary.\<close>

definition get_default :: "(string \<times> jval) list \<Rightarrow> string \<Rightarrow> jval \<Rightarrow> jval" where
  "get_default kv k d = (case map_of kv k of None \<Rightarrow> d | Some v \<Rightarrow> v)"

text \<open>\<open>float(v)\<close>. What \<open>float\<close> makes of a string is the parameter \<open>parse\<close>
  (\<open>None\<close>: \<open>ValueError\<close>).\<close>

fun to_float :: "(string \<Rightarrow> rat option) \<Rightarrow> jval \<Rightarrow> error + rat" where
  "to_float parse (JNum q) = Inr q"
| "to_float parse (JBool b) = Inr (if b then 1 else 0)"
| "to_float parse (JStr s) = (case parse s of None \<Rightarrow> Inl ValueError | Some q \<Rightarrow> Inr q)"
| "to_float parse _ = Inl TypeError"

text \<open>\<open>v[:1000]\<close>: strings and lists slice, everything else raises.\<close>

fun slice1000 :: "jval \<Rightarrow> error + jval" where
  "slice1000 (JStr s) = Inr (JStr (take 1000 s))"
| "slice1000 (JArr xs) = Inr (JArr (take 1000 xs))"
| "slice1000 _ = Inl TypeError"

text \<open>\<open>str.strip()\<close> on code points below 256: the characters for which
  \<open>str.isspace\<close> holds are 9 to 13, 28 to 32, 133 and 160.\<close>

definition isspace :: "char \<Rightarrow> bool" where
  "isspace c = (let n = (of_char c :: nat) in
     (9 \<le> n \<and> n \<le> 13) \<or> (28 \<le> n \<and> n \<le> 32) \<or> n = 133 \<or> n = 160)"

definition strip :: "string \<Rightarrow> string" where
  "strip s = rev (dropWhile isspace (rev (dropWhile isspace s)))"

text \<open>\<open>v.strip()\<close> on a JSON value: only a string has the method.\<close>

fun strip_val :: "jval \<Rightarrow> error + string" where
  "strip_val (JStr s) = Inr (strip s)"
| "strip_val _ = Inl AttributeError"

text \<open>\<open>k in d\<close> for a dictionary \<open>d\<close> whose keys are strings: lists and dictionaries are
  unhashable.\<close>

fun contains :: "(string \<times> 'a) list \<Rightarrow> jval \<Rightarrow> error + bool" where
  "contains d (JStr k) = Inr (map_of d k \<noteq> None)"
| "contains d (JArr xs) = Inl TypeError"
| "contains d (JObj kv) = Inl TypeError"
| "contains d _ = Inr False"

subsection \<open>Data model\<close>

type_synonym pid = string
type_synonym ws = nat

record player =
  pl_id :: pid
  pl_name :: string
  pl_x :: rat
  pl_y :: rat
  pl_zone :: string

record ball =
  b_x :: rat
  b_y :: rat
  b_vx :: rat
  b_vy :: rat
  b_r :: rat

text \<open>\<open>game_state\<close> of line 191; \<open>paddles\<close> and \<open>scores\<close> are flattened.\<close>

record game_state =
  gs_host :: ws
  gs_host_id :: pid
  gs_participants :: "pid list"
  gs_ball :: ball
  paddle_left :: rat
  paddle_right :: rat
  score_left :: int
  score_right :: int
  winTo :: int

text \<open>A participant of \<open>game_started\<close>: a copy of a player record, with its side when
  the roster was built by \<open>join_game\<close>.\<close>

type_synonym participant = "player \<times> string option"

datatype out_msg =
    Welcome player "player list"
  | JoinRejected string string
  | PlayerJoined player
  | PlayerMoved player
  | PlayerLeft pid
  | Chat string jval
  | GlobalChat string jval
  | GameInvite player jval jval
  | GamePending player jval jval
  | GameStarted player jval jval "participant list"
  | GameState pid ball rat rat int int
  | GameOver int int

text \<open>An entry of \<open>pending_games\<close>; \<open>pg_host\<close> refers to the host's player dictionary.\<close>

record pending =
  pg_game :: jval
  pg_zone :: jval
  pg_host :: ws
  pg_participants :: "pid list"

datatype phase = NotConnected | AwaitingJoin | Joined | Closed

text \<open>The local variables of one run of \<open>ws_endpoint\<close>. \<open>participant_ids\<close> is the
  variable that the nested \<open>game_loop\<close> functions of this run read. A variable that is
  not yet assigned holds a blank value, which the code never reads.\<close>

record handler =
  h_phase :: phase
  player_id :: pid
  h_player :: player
  participant_ids :: "pid list"

text \<open>A \<open>game_loop\<close> task: its argument \<open>host_id\<close>, the \<open>state_dict\<close> it shares with
  \<open>active_games\<close>, the run of \<open>ws_endpoint\<close> whose variables it reads, and whether it is
  still in its \<open>while\<close> loop.\<close>

record task =
  t_host_id :: pid
  t_state :: game_state
  t_owner :: ws
  t_running :: bool

record sys =
  conn :: "ws \<Rightarrow> handler"
  players :: "(pid \<times> ws) list"
  connections :: "(pid \<times> ws) list"
  pending_games :: "(pid \<times> pending) list"
  active_games :: "(pid \<times> nat) list"
  tasks :: "task list"
  outbox :: "(ws \<times> out_msg) list"

definition blank_player :: player where
  "blank_player = \<lparr>pl_id = [], pl_name = [], pl_x = 0, pl_y = 0, pl_zone = []\<rparr>"

definition init :: sys where
  "init = \<lparr>conn = (\<lambda>w. \<lparr>h_phase = NotConnected, player_id = [], h_player = blank_player,
                          participant_ids = []\<rparr>),
           players = [], connections = [], pending_games = [], active_games = [],
           tasks = [], outbox = []\<rparr>"

text \<open>The player dictionary behind a reference, \<open>players.values()\<close> and
  \<open>players.get(pid)\<close>.\<close>

definition deref :: "sys \<Rightarrow> ws \<Rightarrow> player" where
  "deref s w = h_player (conn s w)"

definition players_values :: "sys \<Rightarrow> player list" where
  "players_values s = map (\<lambda>(pid, w). deref s w) (players s)"

definition players_get :: "sys \<Rightarrow> pid \<Rightarrow> player option" where
  "players_get s pid = map_option (deref s) (map_of (players s) pid)"

subsection \<open>broadcast and send_to_players\<close>

text \<open>The first loop of \<open>broadcast\<close> (lines 29 to 35): the websockets written to, in
  order, and \<open>to_remove\<close>.\<close>

fun broadcast_loop :: "(ws \<Rightarrow> bool) \<Rightarrow> pid option \<Rightarrow> (pid \<times> ws) list \<Rightarrow> ws list \<times> pid list" where
  "broadcast_loop ok exclude [] = ([], [])"
| "broadcast_loop ok exclude ((pid, w) # cs) =
     (let (sent, to_remove) = broadcast_loop ok exclude cs in
      if Some pid = exclude then (sent, to_remove)
      else if ok w then (w # sent, to_remove)
      else (sent, pid # to_remove))"

text \<open>The second loop (lines 36 to 38, and 53 to 55).\<close>

fun evict :: "pid list \<Rightarrow> sys \<Rightarrow> sys" where
  "evict [] s = s"
| "evict (pid # to_remove) s =
     evict to_remove (s\<lparr>connections := AList.delete pid (connections s),
                        players := AList.delete pid (players s)\<rparr>)"

definition broadcast :: "(ws \<Rightarrow> bool) \<Rightarrow> out_msg \<Rightarrow> pid option \<Rightarrow> sys \<Rightarrow> sys" where
  "broadcast ok message exclude s =
     (let (sent, to_remove) = broadcast_loop ok exclude (connections s) in
      evict to_remove (s\<lparr>outbox := outbox s @ map (\<lambda>w. (w, message)) sent\<rparr>))"

text \<open>The first loop of \<open>send_to_players\<close> (lines 44 to 52).\<close>

fun send_loop :: "(ws \<Rightarrow> bool) \<Rightarrow> (pid \<times> ws) list \<Rightarrow> pid list \<Rightarrow> ws list \<times> pid list" where
  "send_loop ok cs [] = ([], [])"
| "send_loop ok cs (pid # player_ids) =
     (let (sent, to_remove) = send_loop ok cs player_ids in
      case map_of cs pid of
        None \<Rightarrow> (sent, pid # to_remove)
      | Some w \<Rightarrow> if ok w then (w # sent, to_remove) else (sent, pid # to_remove))"

definition send_to_players :: "(ws \<Rightarrow> bool) \<Rightarrow> pid list \<Rightarrow> out_msg \<Rightarrow> sys \<Rightarrow> sys" where
  "send_to_players ok player_ids message s =
     (let (sent, to_remove) = send_loop ok (connections s) player_ids in
      evict to_remove (s\<lparr>outbox := outbox s @ map (\<lambda>w. (w, message)) sent\<rparr>))"

text \<open>\<open>await ws.send_text(...)\<close> on the coroutine's own websocket.\<close>

definition ws_send :: "(ws \<Rightarrow> bool) \<Rightarrow> ws \<Rightarrow> out_msg \<Rightarrow> sys \<Rightarrow> error option \<times> sys" where
  "ws_send ok w message s =
     (if ok w then (None, s\<lparr>outbox := outbox s @ [(w, message)]\<rparr>) else (Some SendFailed, s))"

subsection \<open>The join handshake (lines 63 to 95)\<close>

definition default_name :: "pid \<Rightarrow> string" where
  "default_name pid = ''Player-'' @ take 4 pid"

text \<open>\<open>any(p.get('name') == n for p in players.values())\<close>\<close>

definition name_taken :: "sys \<Rightarrow> string \<Rightarrow> bool" where
  "name_taken s n = list_ex (\<lambda>p. pl_name p = n) (players_values s)"

text \<open>Line 69: \<open>(msg.get("name") or f"Player-{player_id[:4]}").strip()\<close>\<close>

definition proposed_name :: "pid \<Rightarrow> (string \<times> jval) list \<Rightarrow> error + string" where
  "proposed_name pid kv =
     (let n = get_default kv ''name'' JNull
      in strip_val (if truthy n then n else JStr (default_name pid)))"

text \<open>Lines 87 to 95: default spawn, registration, welcome, announcement.\<close>

definition register :: "(ws \<Rightarrow> bool) \<Rightarrow> ws \<Rightarrow> string \<Rightarrow> sys \<Rightarrow> error option \<times> sys" where
  "register ok w name s =
     (let h = conn s w;
          pid = player_id h;
          player = \<lparr>pl_id = pid, pl_name = name, pl_x = 100, pl_y = 100, pl_zone = ''town''\<rparr>;
          s1 = s\<lparr>conn := (conn s)(w := h\<lparr>h_phase := Joined, h_player := player\<rparr>),
                 players := AList.update pid w (players s),
                 connections := AList.update pid w (connections s)\<rparr>
      in case ws_send ok w (Welcome player (players_values s1)) s1 of
           (Some e, s2) \<Rightarrow> (Some e, s2)
         | (None, s2) \<Rightarrow> (None, broadcast ok (PlayerJoined player) (Some pid) s2))"

text \<open>One iteration of the handshake loop on a parsed message; \<open>uuid\<close> is the value of
  \<open>str(uuid.uuid4())\<close> of line 82. The connection stays in \<open>AwaitingJoin\<close> exactly
  when the iteration ends in \<open>continue\<close>, that is, when \<open>register\<close> is not reached.\<close>

fun handshake :: "(ws \<Rightarrow> bool) \<Rightarrow> string \<Rightarrow> ws \<Rightarrow> jval \<Rightarrow> sys \<Rightarrow> error option \<times> sys" where
  "handshake ok uuid w (JObj kv) s =
     (let pid = player_id (conn s w) in
      if get_default kv ''type'' JNull = JStr ''join'' then
        (case proposed_name pid kv of
           Inl e \<Rightarrow> (Some e, s)
         | Inr proposed \<Rightarrow>
             if name_taken s proposed
             then ws_send ok w (JoinRejected ''duplicate'' (proposed @ ''-1'')) s
             else register ok w proposed s)
      else
        (let auto = default_name pid;
             auto' = (if name_taken s auto then auto @ ''-'' @ take 4 uuid else auto)
         in register ok w auto' s))"
| "handshake ok uuid w _ s = (Some AttributeError, s)"

subsection \<open>The main loop (lines 98 to 279)\<close>

text \<open>How one iteration of the main loop ends: at its last statement, at the
  \<open>continue\<close> of line 147, or in an exception.\<close>

datatype flow = Next | Continue | Raise error

definition handle_move ::
  "(ws \<Rightarrow> bool) \<Rightarrow> (string \<Rightarrow> rat option) \<Rightarrow> ws \<Rightarrow> (string \<times> jval) list \<Rightarrow> sys \<Rightarrow> flow \<times> sys" where
  "handle_move ok parse w kv s =
     (let h = conn s w; player = h_player h in
      case to_float parse (get_default kv ''x'' (JNum (pl_x player))) of
        Inl e \<Rightarrow> (Raise e, s)
      | Inr x \<Rightarrow>
          (case to_float parse (get_default kv ''y'' (JNum (pl_y player))) of
             Inl e \<Rightarrow> (Raise e, s)
           | Inr y \<Rightarrow>
               (let player' = player\<lparr>pl_x := x, pl_y := y\<rparr>;
                    s1 = s\<lparr>conn := (conn s)(w := h\<lparr>h_player := player'\<rparr>),
                           players := AList.update (player_id h) w (players s)\<rparr>
                in (Next, broadcast ok (PlayerMoved player') None s1))))"

text \<open>Lines 114 to 118.\<close>

definition nearby_players :: "sys \<Rightarrow> ws \<Rightarrow> pid list" where
  "nearby_players s w =
     (let h = conn s w; player = h_player h in
      map fst (filter (\<lambda>(pid, r).
          pid \<noteq> player_id h \<and>
          (pl_x (deref s r) - pl_x player)\<^sup>2 + (pl_y (deref s r) - pl_y player)\<^sup>2 \<le> 200\<^sup>2)
        (players s)))"

definition handle_chat ::
  "(ws \<Rightarrow> bool) \<Rightarrow> ws \<Rightarrow> (string \<times> jval) list \<Rightarrow> sys \<Rightarrow> flow \<times> sys" where
  "handle_chat ok w kv s =
     (case slice1000 (get_default kv ''content'' (JStr [])) of
        Inl e \<Rightarrow> (Raise e, s)
      | Inr content \<Rightarrow>
          (let message = Chat (pl_name (h_player (conn s w))) content;
               s1 = send_to_players ok (nearby_players s w) message s
           in (case ws_send ok w message s1 of
                 (Some e, s2) \<Rightarrow> (Raise e, s2)
               | (None, s2) \<Rightarrow> (Next, s2))))"

definition handle_global_chat ::
  "(ws \<Rightarrow> bool) \<Rightarrow> ws \<Rightarrow> (string \<times> jval) list \<Rightarrow> sys \<Rightarrow> flow \<times> sys" where
  "handle_global_chat ok w kv s =
     (case slice1000 (get_default kv ''content'' (JStr [])) of
        Inl e \<Rightarrow> (Raise e, s)
      | Inr content \<Rightarrow>
          (Next, broadcast ok (GlobalChat (pl_name (h_player (conn s w))) content) None s))"

definition handle_start_game ::
  "(ws \<Rightarrow> bool) \<Rightarrow> ws \<Rightarrow> (string \<times> jval) list \<Rightarrow> sys \<Rightarrow> flow \<times> sys" where
  "handle_start_game ok w kv s =
     (let h = conn s w; player = h_player h;
          game = get_default kv ''game'' (JStr ''minigame'');
          zone = get_default kv ''zone'' (JStr ''arcade'')
      in
      if game = JStr ''breakout'' then
        (case ws_send ok w (GameStarted player game zone [(player, None)]) s of
           (Some e, s1) \<Rightarrow> (Raise e, s1)
         | (None, s1) \<Rightarrow> (Continue, s1))
      else
        (let other_count = int (length (players s)) - 1 in
         if other_count > 0 then
           (let s1 = s\<lparr>pending_games :=
                         AList.update (player_id h)
                           \<lparr>pg_game = game, pg_zone = zone, pg_host = w,
                            pg_participants = [player_id h]\<rparr>
                           (pending_games s)\<rparr>;
                s2 = broadcast ok (GameInvite player game zone) (Some (player_id h)) s1
            in case ws_send ok w (GamePending player game zone) s2 of
                 (Some e, s3) \<Rightarrow> (Raise e, s3)
               | (None, s3) \<Rightarrow> (Next, s3))
         else
           (Next, broadcast ok (GameStarted player game zone [(player, None)]) None s)))"

text \<open>The roster loop of lines 173 to 182 (\<open>enumerate\<close> gives the index).\<close>

fun roster :: "sys \<Rightarrow> nat \<Rightarrow> pid list \<Rightarrow> participant list" where
  "roster s idx [] = []"
| "roster s idx (pid # pids) =
     (case players_get s pid of
        None \<Rightarrow> roster s (Suc idx) pids
      | Some p \<Rightarrow> (p, Some (if idx = 0 then ''left'' else ''right'')) # roster s (Suc idx) pids)"

text \<open>Lines 166 to 262, for a host id that is a key of \<open>pending_games\<close>.\<close>

definition accept_invite :: "(ws \<Rightarrow> bool) \<Rightarrow> ws \<Rightarrow> pid \<Rightarrow> sys \<Rightarrow> flow \<times> sys" where
  "accept_invite ok w host_id s =
     (case map_of (pending_games s) host_id of
        None \<Rightarrow> (Raise KeyError, s)
      | Some pend \<Rightarrow>
          let s1 = s\<lparr>pending_games := AList.delete host_id (pending_games s)\<rparr>;
              host_pid = host_id;
              joiner_pid = player_id (conn s w);
              participants_ids = [host_pid, joiner_pid];
              participants = roster s1 0 participants_ids;
              s2 = broadcast ok
                     (GameStarted (deref s1 (pg_host pend)) (pg_game pend) (pg_zone pend) participants)
                     None s1;
              pids = map (\<lambda>(p, side). pl_id p) participants;
              game_state = \<lparr>gs_host = pg_host pend, gs_host_id = host_pid,
                            gs_participants = pids,
                            gs_ball = \<lparr>b_x = 400, b_y = 250, b_vx = 5, b_vy = 0, b_r = 9\<rparr>,
                            paddle_left = 200, paddle_right = 200,
                            score_left = 0, score_right = 0, winTo = 7\<rparr>;
              new_task = \<lparr>t_host_id = host_pid, t_state = game_state, t_owner = w,
                          t_running = True\<rparr>
          in (Next, s2\<lparr>conn := (conn s2)(w := (conn s2 w)\<lparr>participant_ids := pids\<rparr>),
                       tasks := tasks s2 @ [new_task],
                       active_games := AList.update host_pid (length (tasks s2)) (active_games s2)\<rparr>))"

definition handle_join_game ::
  "(ws \<Rightarrow> bool) \<Rightarrow> ws \<Rightarrow> (string \<times> jval) list \<Rightarrow> sys \<Rightarrow> flow \<times> sys" where
  "handle_join_game ok w kv s =
     (let host_id = get_default kv ''host_id'' JNull in
      if \<not> truthy host_id then (Next, s)
      else case contains (pending_games s) host_id of
             Inl e \<Rightarrow> (Raise e, s)
           | Inr False \<Rightarrow> (Next, s)
           | Inr True \<Rightarrow>
               (case host_id of
                  JStr hid \<Rightarrow> accept_invite ok w hid s
                | _ \<Rightarrow> (Next, s)))"

text \<open>Lines 276 to 279 on the state dictionary of one game.\<close>

definition set_paddle :: "jval \<Rightarrow> rat \<Rightarrow> game_state \<Rightarrow> game_state" where
  "set_paddle side y ag =
     (if side = JStr ''left'' then ag\<lparr>paddle_left := max 0 (min (500 - 100) y)\<rparr>
      else ag\<lparr>paddle_right := max 0 (min (500 - 100) y)\<rparr>)"

definition handle_paddle_move ::
  "(string \<Rightarrow> rat option) \<Rightarrow> (string \<times> jval) list \<Rightarrow> sys \<Rightarrow> flow \<times> sys" where
  "handle_paddle_move parse kv s =
     (let host_id = get_default kv ''host_id'' JNull;
          side = get_default kv ''side'' JNull
      in case to_float parse (get_default kv ''y'' (JNum 0)) of
           Inl e \<Rightarrow> (Raise e, s)
         | Inr y \<Rightarrow>
             (if \<not> truthy host_id then (Next, s)
              else (case contains (active_games s) host_id of
                      Inl e \<Rightarrow> (Raise e, s)
                    | Inr False \<Rightarrow> (Next, s)
                    | Inr True \<Rightarrow>
                        (case host_id of
                           JStr hid \<Rightarrow>
                             (case map_of (active_games s) hid of
                                None \<Rightarrow> (Raise KeyError, s)
                              | Some i \<Rightarrow>
                                  (Next, s\<lparr>tasks := (tasks s)
                                            [i := (tasks s ! i)\<lparr>t_state :=
                                                    set_paddle side y (t_state (tasks s ! i))\<rparr>]\<rparr>))
                         | _ \<Rightarrow> (Next, s)))))"

text \<open>One iteration of the main loop on a parsed message: the \<open>if\<close>/\<open>elif\<close> chain on
  \<open>msg["type"]\<close>, then the separate \<open>paddle_move\<close> test of line 269.\<close>

fun main_loop_body ::
  "(ws \<Rightarrow> bool) \<Rightarrow> (string \<Rightarrow> rat option) \<Rightarrow> ws \<Rightarrow> jval \<Rightarrow> sys \<Rightarrow> flow \<times> sys" where
  "main_loop_body ok parse w (JObj kv) s =
     (case map_of kv ''type'' of
        None \<Rightarrow> (Raise KeyError, s)
      | Some t \<Rightarrow>
          (case (if t = JStr ''move'' then handle_move ok parse w kv s
                 else if t = JStr ''chat'' then handle_chat ok w kv s
                 else if t = JStr ''global_chat'' then handle_global_chat ok w kv s
                 else if t = JStr ''start_game'' then handle_start_game ok w kv s
                 else if t = JStr ''join_game'' then handle_join_game ok w kv s
                 else (Next, s)) of
             (Next, s1) \<Rightarrow>
               if t = JStr ''paddle_move'' then handle_paddle_move parse kv s1 else (Next, s1)
           | (f, s1) \<Rightarrow> (f, s1)))"
| "main_loop_body ok parse w _ s = (Raise TypeError, s)"

text \<open>The \<open>except\<close> clauses (lines 281 to 292).\<close>

definition cleanup :: "(ws \<Rightarrow> bool) \<Rightarrow> ws \<Rightarrow> sys \<Rightarrow> sys" where
  "cleanup ok w s =
     (let pid = player_id (conn s w);
          s1 = s\<lparr>connections := AList.delete pid (connections s),
                 players := AList.delete pid (players s)\<rparr>;
          s2 = broadcast ok (PlayerLeft pid) None s1
      in s2\<lparr>conn := (conn s2)(w := (conn s2 w)\<lparr>h_phase := Closed\<rparr>)\<rparr>)"

subsection \<open>The game loop (lines 200 to 259)\<close>

definition integrate :: "ball \<Rightarrow> ball" where
  "integrate b = (let b1 = b\<lparr>b_x := b_x b + b_vx b\<rparr> in b1\<lparr>b_y := b_y b1 + b_vy b1\<rparr>)"

definition wall_bounce :: "ball \<Rightarrow> ball" where
  "wall_bounce b =
     (let b1 = (if b_y b - b_r b \<le> 0 then b\<lparr>b_y := b_r b, b_vy := b_vy b * (- 1)\<rparr> else b)
      in if b_y b1 + b_r b1 \<ge> 500 then b1\<lparr>b_y := 500 - b_r b1, b_vy := b_vy b1 * (- 1)\<rparr>
         else b1)"

definition left_x :: rat where "left_x = 30 + 12"
definition right_x :: rat where "right_x = 800 - 42"

text \<open>\<open>(abs(b['vx']) + abs(b['vy'])) * 1.05 or 5.0\<close>\<close>

definition hit_speed :: "ball \<Rightarrow> rat" where
  "hit_speed b = (let v = (\<bar>b_vx b\<bar> + \<bar>b_vy b\<bar>) * (21 / 20) in if v = 0 then 5 else v)"

definition left_paddle :: "rat \<Rightarrow> ball \<Rightarrow> ball" where
  "left_paddle ly b =
     (if b_x b - b_r b \<le> left_x then
        (if b_y b > ly \<and> b_y b < ly + 100 then
           (let b1 = b\<lparr>b_x := left_x + b_r b\<rparr>;
                rel = (b_y b1 - (ly + 50)) / 50;
                speed = hit_speed b1
            in b1\<lparr>b_vx := \<bar>speed\<bar> * 1, b_vy := speed * (1 / 2 * rel)\<rparr>)
         else b)
      else b)"

definition right_paddle :: "rat \<Rightarrow> ball \<Rightarrow> ball" where
  "right_paddle ry b =
     (if b_x b + b_r b \<ge> right_x then
        (if b_y b > ry \<and> b_y b < ry + 100 then
           (let b1 = b\<lparr>b_x := right_x - b_r b\<rparr>;
                rel = (b_y b1 - (ry + 50)) / 50;
                speed = hit_speed b1
            in b1\<lparr>b_vx := - \<bar>speed\<bar> * 1, b_vy := speed * (1 / 2 * rel)\<rparr>)
         else b)
      else b)"

definition scoring :: "game_state \<Rightarrow> game_state" where
  "scoring st =
     (let st1 = (if b_x (gs_ball st) < 0
                 then st\<lparr>score_right := score_right st + 1,
                         gs_ball := (gs_ball st)\<lparr>b_x := 400, b_y := 250, b_vx := 5, b_vy := 0\<rparr>\<rparr>
                 else st)
      in if b_x (gs_ball st1) > 800
         then st1\<lparr>score_left := score_left st1 + 1,
                  gs_ball := (gs_ball st1)\<lparr>b_x := 400, b_y := 250, b_vx := - 5, b_vy := 0\<rparr>\<rparr>
         else st1)"

text \<open>Lines 206 to 244: what one iteration does to the state dictionary.\<close>

definition physics :: "game_state \<Rightarrow> game_state" where
  "physics st =
     (let b = wall_bounce (integrate (gs_ball st));
          ly = paddle_left st;
          ry = paddle_right st;
          b' = right_paddle ry (left_paddle ly b)
      in scoring (st\<lparr>gs_ball := b'\<rparr>))"

text \<open>One iteration of the \<open>while\<close> loop of task \<open>i\<close>, with the list of
  \<open>send_to_players\<close> calls it makes (recipient ids and message). A task that has left its
  loop, or does not exist, does nothing.\<close>

definition game_tick ::
  "(ws \<Rightarrow> bool) \<Rightarrow> nat \<Rightarrow> sys \<Rightarrow> (pid list \<times> out_msg) list \<times> sys" where
  "game_tick ok i s =
     (if i < length (tasks s) \<and> t_running (tasks s ! i) then
        (let t = tasks s ! i;
             st = physics (t_state t);
             s1 = s\<lparr>tasks := (tasks s)[i := t\<lparr>t_state := st\<rparr>]\<rparr>;
             pids = participant_ids (conn s1 (t_owner t));
             snapshot = GameState (t_host_id t) (gs_ball st) (paddle_left st) (paddle_right st)
                          (score_left st) (score_right st);
             s2 = send_to_players ok pids snapshot s1
         in if score_left st \<ge> winTo st \<or> score_right st \<ge> winTo st then
              (let over = GameOver (score_left st) (score_right st);
                   s3 = send_to_players ok pids over s2
               in ([(pids, snapshot), (pids, over)],
                   s3\<lparr>tasks := (tasks s3)[i := (tasks s3 ! i)\<lparr>t_running := False\<rparr>]\<rparr>))
            else ([(pids, snapshot)], s2))
      else ([], s))"

subsection \<open>Events and runs\<close>

text \<open>What the outside world decides at a step: which websockets accept a write, what
  \<open>float\<close> makes of a string, and the next random uuid.\<close>

record env =
  send_ok :: "ws \<Rightarrow> bool"
  float_str :: "string \<Rightarrow> rat option"
  uuid4 :: string

text \<open>\<open>Accept w pid\<close>: a websocket is accepted and \<open>player_id\<close> drawn.
  \<open>Receive w None\<close>: a text frame that \<open>json.loads\<close> rejects. \<open>Disconnect w\<close>:
  \<open>receive_text\<close> raises. \<open>Tick i\<close>: task \<open>i\<close> runs one iteration.\<close>

datatype event =
    Accept ws pid
  | Receive ws "jval option"
  | Disconnect ws
  | Tick nat

fun on_receive :: "env \<Rightarrow> ws \<Rightarrow> jval option \<Rightarrow> sys \<Rightarrow> sys" where
  "on_receive e w None s = cleanup (send_ok e) w s"
| "on_receive e w (Some msg) s =
     (case h_phase (conn s w) of
        AwaitingJoin \<Rightarrow>
          (case handshake (send_ok e) (uuid4 e) w msg s of
             (Some err, s1) \<Rightarrow> cleanup (send_ok e) w s1
           | (None, s1) \<Rightarrow> s1)
      | Joined \<Rightarrow>
          (case main_loop_body (send_ok e) (float_str e) w msg s of
             (Raise err, s1) \<Rightarrow> cleanup (send_ok e) w s1
           | (_, s1) \<Rightarrow> s1)
      | _ \<Rightarrow> s)"

fun step :: "env \<Rightarrow> event \<Rightarrow> sys \<Rightarrow> sys" where
  "step e (Accept w pid) s =
     (if h_phase (conn s w) = NotConnected
      then s\<lparr>conn := (conn s)(w := (conn s w)\<lparr>h_phase := AwaitingJoin, player_id := pid\<rparr>)\<rparr>
      else s)"
| "step e (Receive w text) s =
     (if h_phase (conn s w) = AwaitingJoin \<or> h_phase (conn s w) = Joined
      then on_receive e w text s else s)"
| "step e (Disconnect w) s =
     (if h_phase (conn s w) = AwaitingJoin \<or> h_phase (conn s w) = Joined
      then cleanup (send_ok e) w s else s)"
| "step e (Tick i) s = snd (game_tick (send_ok e) i s)"

fun run :: "(env \<times> event) list \<Rightarrow> sys \<Rightarrow> sys" where
  "run [] s = s"
| "run ((e, ev) # evs) s = run evs (step e ev s)"


subsection \<open>Example states\<close>

text \<open>A transport on which every write succeeds, one on which the writes to one
  websocket fail, and the messages of a small session: three players join and walk to
  (0,0), (150,0) and (300,0); the first invites to a game of pong; the second accepts.
  Each state below is written out, and reached from \<open>init\<close> by the events named in the
  lemmas \<open>town_reached\<close> to \<open>started_reached\<close> (the log \<open>outbox\<close> is emptied).\<close>

definition env_ok :: env where
  "env_ok = \<lparr>send_ok = (\<lambda>w. True), float_str = (\<lambda>s. None), uuid4 = ''0f0f''\<rparr>"

definition env_down :: "ws \<Rightarrow> env" where
  "env_down w = \<lparr>send_ok = (\<lambda>w'. w' \<noteq> w), float_str = (\<lambda>s. None), uuid4 = ''0f0f''\<rparr>"

definition join_msg :: "string \<Rightarrow> jval" where
  "join_msg n = JObj [(''type'', JStr ''join''), (''name'', JStr n)]"

definition move_msg :: "rat \<Rightarrow> rat \<Rightarrow> jval" where
  "move_msg x y = JObj [(''type'', JStr ''move''), (''x'', JNum x), (''y'', JNum y)]"

definition chat_msg :: "string \<Rightarrow> jval" where
  "chat_msg c = JObj [(''type'', JStr ''chat''), (''content'', JStr c)]"

definition start_msg :: "string \<Rightarrow> jval" where
  "start_msg g = JObj [(''type'', JStr ''start_game''), (''game'', JStr g)]"

definition accept_msg :: "pid \<Rightarrow> jval" where
  "accept_msg hid = JObj [(''type'', JStr ''join_game''), (''host_id'', JStr hid)]"

definition paddle_msg :: "pid \<Rightarrow> string \<Rightarrow> rat \<Rightarrow> jval" where
  "paddle_msg hid side y =
     JObj [(''type'', JStr ''paddle_move''), (''host_id'', JStr hid), (''side'', JStr side),
           (''y'', JNum y)]"

definition joined :: "pid \<Rightarrow> string \<Rightarrow> rat \<Rightarrow> rat \<Rightarrow> pid list \<Rightarrow> handler" where
  "joined pid name x y pids =
     \<lparr>h_phase = Joined, player_id = pid,
      h_player = \<lparr>pl_id = pid, pl_name = name, pl_x = x, pl_y = y, pl_zone = ''town''\<rparr>,
      participant_ids = pids\<rparr>"

definition town_events :: "(env \<times> event) list" where
  "town_events =
     [(env_ok, Accept 1 ''aaaa-1''), (env_ok, Receive 1 (Some (join_msg ''ann''))),
      (env_ok, Accept 2 ''bbbb-2''), (env_ok, Receive 2 (Some (join_msg ''bob''))),
      (env_ok, Accept 3 ''cccc-3''), (env_ok, Receive 3 (Some (join_msg ''cat''))),
      (env_ok, Receive 1 (Some (move_msg 0 0))),
      (env_ok, Receive 2 (Some (move_msg 150 0))),
      (env_ok, Receive 3 (Some (move_msg 300 0)))]"

definition town :: sys where
  "town = \<lparr>conn = (conn init)(1 := joined ''aaaa-1'' ''ann'' 0 0 [],
                               2 := joined ''bbbb-2'' ''bob'' 150 0 [],
                               3 := joined ''cccc-3'' ''cat'' 300 0 []),
           players = [(''aaaa-1'', 1), (''bbbb-2'', 2), (''cccc-3'', 3)],
           connections = [(''aaaa-1'', 1), (''bbbb-2'', 2), (''cccc-3'', 3)],
           pending_games = [], active_games = [], tasks = [], outbox = []\<rparr>"

definition invited :: sys where
  "invited = town\<lparr>pending_games :=
     [(''aaaa-1'', \<lparr>pg_game = JStr ''pong'', pg_zone = JStr ''arcade'', pg_host = 1,
                    pg_participants = [''aaaa-1'']\<rparr>)]\<rparr>"

definition host_left :: sys where
  "host_left = invited\<lparr>conn := (conn invited)(1 := (conn invited 1)\<lparr>h_phase := Closed\<rparr>),
                        players := [(''bbbb-2'', 2), (''cccc-3'', 3)],
                        connections := [(''bbbb-2'', 2), (''cccc-3'', 3)]\<rparr>"

definition kickoff :: "pid list \<Rightarrow> game_state" where
  "kickoff pids =
     \<lparr>gs_host = 1, gs_host_id = ''aaaa-1'', gs_participants = pids,
      gs_ball = \<lparr>b_x = 400, b_y = 250, b_vx = 5, b_vy = 0, b_r = 9\<rparr>,
      paddle_left = 200, paddle_right = 200, score_left = 0, score_right = 0, winTo = 7\<rparr>"

definition started :: sys where
  "started = town\<lparr>conn := (conn town)(2 := joined ''bbbb-2'' ''bob'' 150 0 [''aaaa-1'', ''bbbb-2'']),
                    active_games := [(''aaaa-1'', 0)],
                    tasks := [\<lparr>t_host_id = ''aaaa-1'', t_state = kickoff [''aaaa-1'', ''bbbb-2''],
                               t_owner = 2, t_running = True\<rparr>]\<rparr>"

definition newcomer :: sys where
  "newcomer = town\<lparr>conn := (conn town)(4 := (conn town 4)\<lparr>h_phase := AwaitingJoin,
                                                             player_id := ''dddd-4''\<rparr>)\<rparr>"

definition lonely :: sys where
  "lonely = host_left\<lparr>conn := (conn host_left)(2 := joined ''bbbb-2'' ''bob'' 150 0 [''bbbb-2'']),
                        pending_games := [],
                        active_games := [(''aaaa-1'', 0)],
                        tasks := [\<lparr>t_host_id = ''aaaa-1'', t_state = kickoff [''bbbb-2''],
                                   t_owner = 2, t_running = True\<rparr>]\<rparr>"

text \<open>A late state of that game: the left paddle has been moved to 0, the right side
  leads 6 to 0, and the ball, returned by the right paddle, is about to pass the left
  edge (lemma \<open>endgame_state_reached\<close>: it is the state after 1490 ticks).\<close>

definition endgame :: sys where
  "endgame = lonely\<lparr>tasks := [\<lparr>t_host_id = ''aaaa-1'',
       t_state = (kickoff [''bbbb-2''])
         \<lparr>gs_ball := \<lparr>b_x = 7 / 2, b_y = 250, b_vx = - (21 / 4), b_vy = 0, b_r = 9\<rparr>,
          paddle_left := 0, score_right := 6\<rparr>,
       t_owner = 2, t_running = True\<rparr>]\<rparr>"

text \<open>After the game of the first two has started, the third player invites and the
  second accepts that invite too.\<close>

definition rebound_events :: "(env \<times> event) list" where
  "rebound_events =
     [(env_ok, Receive 3 (Some (start_msg ''pong''))),
      (env_ok, Receive 2 (Some (accept_msg ''cccc-3'')))]"

subsection \<open>Predicates used to state the properties\<close>

text \<open>Task \<open>i\<close> exists and has left its loop.\<close>

definition finished :: "nat \<Rightarrow> sys \<Rightarrow> bool" where
  "finished i s = (i < length (tasks s) \<and> \<not> t_running (tasks s ! i))"



text \<open>\<open>players\<close> and \<open>connections\<close> have the same keys.\<close>

definition same_keys :: "sys \<Rightarrow> bool" where
  "same_keys s = (fst ` set (players s) = fst ` set (connections s))"



section \<open>Properties\<close>

subsection \<open>Evaluation of the examples\<close>

lemmas example_defs = init_def env_ok_def env_down_def join_msg_def move_msg_def chat_msg_def
  start_msg_def accept_msg_def paddle_msg_def joined_def town_events_def town_def invited_def
  host_left_def kickoff_def started_def newcomer_def lonely_def endgame_def rebound_events_def blank_player_def

lemmas hub_defs = register_def ws_send_def broadcast_def
  send_to_players_def cleanup_def name_taken_def players_values_def players_get_def deref_def
  proposed_name_def default_name_def get_default_def strip_def isspace_def Let_def
  handle_move_def handle_chat_def handle_global_chat_def handle_start_game_def
  handle_join_game_def accept_invite_def handle_paddle_move_def set_paddle_def
  nearby_players_def

lemma town_reached: "(run town_events init)\<lparr>outbox := []\<rparr> = town"
  by (rule sys.equality) (auto simp add: example_defs hub_defs fun_eq_iff)

lemma newcomer_reached: "step env_ok (Accept 4 ''dddd-4'') town = newcomer"
  by (rule sys.equality) (auto simp add: example_defs fun_eq_iff)

lemma invited_reached:
  "(step env_ok (Receive 1 (Some (start_msg ''pong''))) town)\<lparr>outbox := []\<rparr> = invited"
  by (rule sys.equality) (auto simp add: example_defs hub_defs fun_eq_iff)

lemma host_left_reached:
  "(step env_ok (Disconnect 1) invited)\<lparr>outbox := []\<rparr> = host_left"
  by (rule sys.equality) (auto simp add: example_defs hub_defs fun_eq_iff)

lemma started_reached:
  "(step env_ok (Receive 2 (Some (accept_msg ''aaaa-1''))) invited)\<lparr>outbox := []\<rparr> = started"
  by (rule sys.equality) (auto simp add: example_defs hub_defs fun_eq_iff)

lemma lonely_reached:
  "(step env_ok (Receive 2 (Some (accept_msg ''aaaa-1''))) host_left)\<lparr>outbox := []\<rparr> = lonely"
  by (rule sys.equality) (auto simp add: example_defs hub_defs fun_eq_iff)

subsection \<open>What broadcast and send_to_players write and leave alone\<close>

lemma broadcast_loop_sent:
  "fst (broadcast_loop ok ex cs) = map snd (filter (\<lambda>(pid, w). Some pid \<noteq> ex \<and> ok w) cs)"
  by (induction cs) (auto simp: case_prod_beta)


lemma evict_outbox [simp]: "outbox (evict r s) = outbox s"
  by (induction r arbitrary: s) auto
lemma evict_conn [simp]: "conn (evict r s) = conn s"
  by (induction r arbitrary: s) auto
lemma evict_pending [simp]: "pending_games (evict r s) = pending_games s"
  by (induction r arbitrary: s) auto
lemma evict_active [simp]: "active_games (evict r s) = active_games s"
  by (induction r arbitrary: s) auto
lemma evict_tasks [simp]: "tasks (evict r s) = tasks s"
  by (induction r arbitrary: s) auto

lemma broadcast_outbox:
  "outbox (broadcast ok m ex s) =
     outbox s @ map (\<lambda>(pid, w). (w, m)) (filter (\<lambda>(pid, w). Some pid \<noteq> ex \<and> ok w) (connections s))"
proof -
  obtain sent rem where br: "broadcast_loop ok ex (connections s) = (sent, rem)"
    by (cases "broadcast_loop ok ex (connections s)")
  then have "sent = map snd (filter (\<lambda>(pid, w). Some pid \<noteq> ex \<and> ok w) (connections s))"
    using broadcast_loop_sent [of ok ex "connections s"] by simp
  then show ?thesis
    by (simp add: broadcast_def br split_def comp_def Let_def)
qed

lemma broadcast_conn [simp]: "conn (broadcast ok m ex s) = conn s"
  by (simp add: broadcast_def split_def Let_def)
lemma broadcast_pending [simp]: "pending_games (broadcast ok m ex s) = pending_games s"
  by (simp add: broadcast_def split_def Let_def)
lemma broadcast_active [simp]: "active_games (broadcast ok m ex s) = active_games s"
  by (simp add: broadcast_def split_def Let_def)
lemma broadcast_tasks [simp]: "tasks (broadcast ok m ex s) = tasks s"
  by (simp add: broadcast_def split_def Let_def)


lemma send_to_players_conn [simp]: "conn (send_to_players ok pids m s) = conn s"
  by (simp add: send_to_players_def split_def Let_def)
lemma send_to_players_pending [simp]: "pending_games (send_to_players ok pids m s) = pending_games s"
  by (simp add: send_to_players_def split_def Let_def)
lemma send_to_players_active [simp]: "active_games (send_to_players ok pids m s) = active_games s"
  by (simp add: send_to_players_def split_def Let_def)
lemma send_to_players_tasks [simp]: "tasks (send_to_players ok pids m s) = tasks s"
  by (simp add: send_to_players_def split_def Let_def)


subsection \<open>The join handshake\<close>

text \<open>
  Claim C7. A connection in state \<open>AwaitingJoin\<close> receives a \<open>join\<close> message whose
  proposed name (the name field, or the default name when the field is missing or
  empty, stripped of surrounding whitespace) is the name of a registered player. Then
  the only effect of the step is one \<open>join_rejected\<close> message on that connection, with
  reason "duplicate" and the proposed name followed by "-1" as suggestion: no player is
  registered, and the connection is still in \<open>AwaitingJoin\<close>, so the next message is
  handled by the handshake again. The connection's own transport is assumed to accept
  the write.
\<close>

theorem duplicate_join_rejected:
  assumes "h_phase (conn s w) = AwaitingJoin"
    and "map_of kv ''type'' = Some (JStr ''join'')"
    and "proposed_name (player_id (conn s w)) kv = Inr proposed"
    and "\<exists>p \<in> set (players_values s). pl_name p = proposed"
    and "send_ok e w"
  shows "step e (Receive w (Some (JObj kv))) s =
           s\<lparr>outbox := outbox s @ [(w, JoinRejected ''duplicate'' (proposed @ ''-1''))]\<rparr>"
  using assms
  by (simp add: get_default_def name_taken_def list_ex_iff ws_send_def)

theorem duplicate_join_rejected_witness:
  "h_phase (conn newcomer 4) = AwaitingJoin
   \<and> proposed_name (player_id (conn newcomer 4))
        [(''type'', JStr ''join''), (''name'', JStr '' ann '')] = Inr ''ann''
   \<and> (\<exists>p \<in> set (players_values newcomer). pl_name p = ''ann'')
   \<and> step env_ok (Receive 4 (Some (join_msg '' ann ''))) newcomer
       = newcomer\<lparr>outbox := [(4, JoinRejected ''duplicate'' ''ann-1'')]\<rparr>
   \<and> h_phase (conn (step env_ok (Receive 4 (Some (join_msg '' ann ''))) newcomer) 4)
       = AwaitingJoin"
proof -
  have 1: "h_phase (conn newcomer 4) = AwaitingJoin"
    by (simp add: example_defs)
  have 2: "map_of [(''type'', JStr ''join''), (''name'', JStr '' ann '')] ''type''
             = Some (JStr ''join'')"
    by simp
  have 3: "proposed_name (player_id (conn newcomer 4))
             [(''type'', JStr ''join''), (''name'', JStr '' ann '')] = Inr ''ann''"
    by (simp add: hub_defs)
  have 4: "\<exists>p \<in> set (players_values newcomer). pl_name p = ''ann''"
    by (simp add: example_defs hub_defs)
  have 5: "send_ok env_ok 4"
    by (simp add: env_ok_def)
  have 6: "outbox newcomer = []"
    by (simp add: example_defs)
  have "step env_ok (Receive 4 (Some (join_msg '' ann ''))) newcomer
       = newcomer\<lparr>outbox := [(4, JoinRejected ''duplicate'' ''ann-1'')]\<rparr>"
    using duplicate_join_rejected [OF 1 2 3 4 5]
    unfolding join_msg_def 6 by simp
  then show ?thesis
    using 1 3 4 by simp
qed

subsection \<open>Chat\<close>




subsection \<open>Movement\<close>




subsection \<open>Invitations\<close>

text \<open>
  Claim C3, as the code has it. A joined connection receives \<open>join_game\<close> with a host id
  that is a key of \<open>pending_games\<close>. The invite is removed. The roster holds those of host
  and joiner that \<open>players\<close> knows at that moment, the host with side "left" and the joiner
  with side "right", in this order; it has two entries exactly when both are registered.
  \<open>game_started\<close> with this roster is written to every registered connection whose
  transport accepts the write. A new task is appended, running, whose state has the ball
  at (400, 250) with velocity (5, 0) and radius 9, both paddles at 200, scores 0 and 0
  and win threshold 7; \<open>active_games\<close> maps the host id to it.
\<close>

theorem join_game_starts_game:
  assumes "h_phase (conn s w) = Joined"
    and "map_of kv ''type'' = Some (JStr ''join_game'')"
    and "map_of kv ''host_id'' = Some (JStr hid)" and "hid \<noteq> []"
    and "map_of (pending_games s) hid = Some pend"
  shows "let s' = step e (Receive w (Some (JObj kv))) s;
             participants =
               (case players_get s hid of None \<Rightarrow> [] | Some p \<Rightarrow> [(p, Some ''left'')])
               @ (case players_get s (player_id (conn s w)) of None \<Rightarrow> []
                  | Some p \<Rightarrow> [(p, Some ''right'')]);
             pids = map (\<lambda>(p, side). pl_id p) participants
         in pending_games s' = AList.delete hid (pending_games s)
          \<and> outbox s' = outbox s
               @ map (\<lambda>(pid, w'). (w', GameStarted (deref s (pg_host pend)) (pg_game pend)
                                          (pg_zone pend) participants))
                   (filter (\<lambda>(pid, w'). send_ok e w') (connections s))
          \<and> tasks s' = tasks s @
               [\<lparr>t_host_id = hid,
                 t_state = \<lparr>gs_host = pg_host pend, gs_host_id = hid, gs_participants = pids,
                            gs_ball = \<lparr>b_x = 400, b_y = 250, b_vx = 5, b_vy = 0, b_r = 9\<rparr>,
                            paddle_left = 200, paddle_right = 200,
                            score_left = 0, score_right = 0, winTo = 7\<rparr>,
                 t_owner = w, t_running = True\<rparr>]
          \<and> map_of (active_games s') hid = Some (length (tasks s))
          \<and> participant_ids (conn s' w) = pids"
  using assms
  by (auto simp: handle_join_game_def accept_invite_def Let_def get_default_def
        broadcast_outbox players_get_def deref_def AList.update_conv' split: option.splits)

theorem join_game_starts_game_witness:
  "h_phase (conn invited 2) = Joined
   \<and> map_of (pending_games invited) ''aaaa-1''
       = Some \<lparr>pg_game = JStr ''pong'', pg_zone = JStr ''arcade'', pg_host = 1,
               pg_participants = [''aaaa-1'']\<rparr>
   \<and> tasks (step env_ok (Receive 2 (Some (accept_msg ''aaaa-1''))) invited)
       = [\<lparr>t_host_id = ''aaaa-1'', t_state = kickoff [''aaaa-1'', ''bbbb-2''], t_owner = 2,
           t_running = True\<rparr>]
   \<and> pending_games (step env_ok (Receive 2 (Some (accept_msg ''aaaa-1''))) invited) = []
   \<and> outbox (step env_ok (Receive 2 (Some (accept_msg ''aaaa-1''))) invited)
       = map (\<lambda>w. (w, GameStarted (h_player (joined ''aaaa-1'' ''ann'' 0 0 [])) (JStr ''pong'')
                        (JStr ''arcade'')
                        [(h_player (joined ''aaaa-1'' ''ann'' 0 0 []), Some ''left''),
                         (h_player (joined ''bbbb-2'' ''bob'' 150 0 []), Some ''right'')]))
           [1, 2, 3]"
proof -
  have 1: "h_phase (conn invited 2) = Joined"
    by (simp add: example_defs)
  have 2: "map_of [(''type'', JStr ''join_game''), (''host_id'', JStr ''aaaa-1'')] ''type''
             = Some (JStr ''join_game'')"
    by simp
  have 3: "map_of [(''type'', JStr ''join_game''), (''host_id'', JStr ''aaaa-1'')] ''host_id''
             = Some (JStr ''aaaa-1'')"
    by simp
  have 4: "''aaaa-1'' \<noteq> []" by simp
  have 5: "map_of (pending_games invited) ''aaaa-1''
       = Some \<lparr>pg_game = JStr ''pong'', pg_zone = JStr ''arcade'', pg_host = 1,
               pg_participants = [''aaaa-1'']\<rparr>"
    by (simp add: example_defs)
  show ?thesis
    using 1 5 join_game_starts_game [OF 1 2 3 4 5, of env_ok]
    by (simp add: example_defs Let_def players_get_def deref_def)
qed

text \<open>The claim as stated (a roster of two, host left and joiner right, for every
  pending invite) fails when the host has disconnected before the acceptance: the invite
  is still pending, and the roster and the game's participant ids hold the joiner only.\<close>

theorem join_game_roster_counterexample:
  "outbox (step env_ok (Receive 2 (Some (accept_msg ''aaaa-1''))) host_left)
     = map (\<lambda>w. (w, GameStarted (h_player (joined ''aaaa-1'' ''ann'' 0 0 [])) (JStr ''pong'')
                      (JStr ''arcade'')
                      [(h_player (joined ''bbbb-2'' ''bob'' 150 0 []), Some ''right'')]))
         [2, 3]
   \<and> map (gs_participants \<circ> t_state)
        (tasks (step env_ok (Receive 2 (Some (accept_msg ''aaaa-1''))) host_left))
       = [[''bbbb-2'']]"
  by (simp add: example_defs hub_defs)

text \<open>
  Claim C8. A joined connection receives \<open>join_game\<close> whose host id is missing, null,
  empty, a number, a boolean, or a string that is not a key of \<open>pending_games\<close> (as after
  a first acceptance, which removed the entry). The step changes nothing: no message,
  and the same registry, invites and games.
\<close>

theorem join_game_without_invite_ignored:
  assumes "h_phase (conn s w) = Joined"
    and "map_of kv ''type'' = Some (JStr ''join_game'')"
    and "case get_default kv ''host_id'' JNull of
           JStr hid \<Rightarrow> hid = [] \<or> map_of (pending_games s) hid = None
         | JArr xs \<Rightarrow> xs = []
         | JObj m \<Rightarrow> m = []
         | _ \<Rightarrow> True"
  shows "step e (Receive w (Some (JObj kv))) s = s"
  using assms
  by (cases "get_default kv ''host_id'' JNull") (auto simp: handle_join_game_def Let_def)

theorem join_game_without_invite_ignored_witness:
  "h_phase (conn started 3) = Joined
   \<and> map_of (pending_games started) ''aaaa-1'' = None
   \<and> step env_ok (Receive 3 (Some (accept_msg ''aaaa-1''))) started = started"
proof -
  have 1: "h_phase (conn started 3) = Joined"
    by (simp add: example_defs)
  have 2: "map_of [(''type'', JStr ''join_game''), (''host_id'', JStr ''aaaa-1'')] ''type''
             = Some (JStr ''join_game'')"
    by simp
  have 3: "map_of (pending_games started) ''aaaa-1'' = None"
    by (simp add: example_defs)
  have 4: "case get_default [(''type'', JStr ''join_game''), (''host_id'', JStr ''aaaa-1'')]
                  ''host_id'' JNull of
             JStr hid \<Rightarrow> hid = [] \<or> map_of (pending_games started) hid = None
           | JArr xs \<Rightarrow> xs = []
           | JObj m \<Rightarrow> m = []
           | _ \<Rightarrow> True"
    using 3 by (simp add: get_default_def)
  show ?thesis
    using 1 3 join_game_without_invite_ignored [OF 1 2 4, of env_ok]
    unfolding accept_msg_def by blast
qed

text \<open>Beyond the protocol's messages: a host id that is a non-empty JSON array is
  unhashable, so the membership test raises and the connection is cleaned up.\<close>

lemma join_game_unhashable_host_raises:
  assumes "h_phase (conn s w) = Joined"
    and "map_of kv ''type'' = Some (JStr ''join_game'')"
    and "map_of kv ''host_id'' = Some (JArr (x # xs))"
  shows "step e (Receive w (Some (JObj kv))) s = cleanup (send_ok e) w s"
  using assms by (simp add: handle_join_game_def get_default_def)

subsection \<open>Paddle input\<close>



subsection \<open>Paddle collisions\<close>



subsection \<open>Termination of a game\<close>

lemma cleanup_tasks [simp]: "tasks (cleanup ok w s) = tasks s"
  by (simp add: cleanup_def Let_def)

lemma ws_send_tasks [simp]: "tasks (snd (ws_send ok w m s)) = tasks s"
  by (simp add: ws_send_def)

lemma register_tasks [simp]: "tasks (snd (register ok w n s)) = tasks s"
  by (simp add: register_def Let_def ws_send_def split: prod.splits option.splits)


lemma handle_move_tasks [simp]: "tasks (snd (handle_move ok parse w kv s)) = tasks s"
  by (simp add: handle_move_def Let_def split: sum.splits)

lemma handle_chat_tasks [simp]: "tasks (snd (handle_chat ok w kv s)) = tasks s"
  by (simp add: handle_chat_def Let_def ws_send_def split: sum.splits)

lemma handle_global_chat_tasks [simp]: "tasks (snd (handle_global_chat ok w kv s)) = tasks s"
  by (simp add: handle_global_chat_def Let_def split: sum.splits)

lemma handle_start_game_tasks [simp]: "tasks (snd (handle_start_game ok w kv s)) = tasks s"
  by (simp add: handle_start_game_def Let_def ws_send_def split: sum.splits)

lemma finished_append: "finished i s \<Longrightarrow> tasks s' = tasks s @ ts \<Longrightarrow> finished i s'"
  by (simp add: finished_def nth_append)

lemma finished_same: "finished i s \<Longrightarrow> tasks s' = tasks s \<Longrightarrow> finished i s'"
  by (simp add: finished_def)















lemmas physics_defs = physics_def integrate_def wall_bounce_def left_paddle_def right_paddle_def
  scoring_def left_x_def right_x_def hit_speed_def

lemma game_tick_emits:
  assumes "i < length (tasks s)" and "t_running (tasks s ! i)"
    and "st = physics (t_state (tasks s ! i))"
    and "pids = participant_ids (conn s (t_owner (tasks s ! i)))"
  shows "fst (game_tick ok i s) =
           (pids, GameState (t_host_id (tasks s ! i)) (gs_ball st) (paddle_left st)
                    (paddle_right st) (score_left st) (score_right st))
           # (if winTo st \<le> score_left st \<or> winTo st \<le> score_right st
              then [(pids, GameOver (score_left st) (score_right st))] else [])"
    and "finished i (snd (game_tick ok i s))
           = (winTo st \<le> score_left st \<or> winTo st \<le> score_right st)"
  using assms by (simp_all add: game_tick_def Let_def finished_def)

lemma game_tick_state:
  assumes "i < length (tasks s)" and "t_running (tasks s ! i)"
  shows "t_state (tasks (snd (game_tick ok i s)) ! i) = physics (t_state (tasks s ! i))"
  using assms by (simp add: game_tick_def Let_def)



lemma endgame_state_reached:
  "(physics ^^ 1490) ((kickoff [''bbbb-2''])\<lparr>paddle_left := 0\<rparr>) = t_state (tasks endgame ! 0)"
  by (simp add: eval_nat_numeral example_defs physics_defs Let_def)





text \<open>Outside the claim: \<open>game_loop\<close> reads the variable \<open>participant_ids\<close> of the
  run of \<open>ws_endpoint\<close> that created it, at every send. When the same connection accepts
  a second invite, the variable is assigned again, and from then on the first game's
  loop addresses its messages to the ids of the second game.\<close>

lemma rebound_ids:
  "participant_ids (conn (run rebound_events started) 2) = [''cccc-3'', ''bbbb-2'']"
  "map (gs_participants \<circ> t_state) (tasks (run rebound_events started))
     = [[''aaaa-1'', ''bbbb-2''], [''cccc-3'', ''bbbb-2'']]"
  "map t_owner (tasks (run rebound_events started)) = [2, 2]"
  "map t_running (tasks (run rebound_events started)) = [True, True]"
  "map t_host_id (tasks (run rebound_events started)) = [''aaaa-1'', ''cccc-3'']"
  by (simp_all add: example_defs hub_defs)

lemma first_game_follows_rebinding:
  "set (map fst (fst (game_tick (send_ok env_ok) 0 (run rebound_events started))))
     = {[''cccc-3'', ''bbbb-2'']}"
proof -
  have l: "0 < length (tasks (run rebound_events started))"
    using arg_cong [OF rebound_ids(3), of length] by simp
  have r: "t_running (tasks (run rebound_events started) ! 0)"
    using arg_cong [OF rebound_ids(4), of "\<lambda>xs. xs ! 0"] l by simp
  have o: "t_owner (tasks (run rebound_events started) ! 0) = 2"
    using arg_cong [OF rebound_ids(3), of "\<lambda>xs. xs ! 0"] l by simp
  show ?thesis
    using game_tick_emits(1) [OF l r refl refl, of "send_ok env_ok"]
    unfolding o rebound_ids(1) by auto
qed

subsection \<open>A rally without paddle input\<close>














subsection \<open>The keys of players and connections\<close>

text \<open>Each of these operations keeps the two key sets equal: the eviction loop of
  \<open>broadcast\<close> and \<open>send_to_players\<close>, the cleanup of a closed connection, and the
  registration at the end of the handshake.\<close>

lemma keys_delete: "fst ` set (AList.delete k al) = fst ` set al - {k}"
proof -
  have "set (map fst (AList.delete k al)) = set (map fst al) - {k}"
    by (simp add: AList.delete_keys)
  then show ?thesis by simp
qed

lemma keys_update: "fst ` set (AList.update k v al) = insert k (fst ` set al)"
  by (simp add: AList.dom_update)

lemma evict_same_keys: "same_keys s \<Longrightarrow> same_keys (evict r s)"
proof (induction r arbitrary: s)
  case Nil
  then show ?case by simp
next
  case (Cons pid r)
  have "same_keys (s\<lparr>connections := AList.delete pid (connections s),
                      players := AList.delete pid (players s)\<rparr>)"
    using Cons.prems unfolding same_keys_def by (simp add: keys_delete)
  then show ?case
    using Cons.IH by simp
qed

lemma broadcast_same_keys:
  assumes "same_keys s"
  shows "same_keys (broadcast ok m ex s)"
proof -
  have "same_keys (s\<lparr>outbox := ob\<rparr>)" for ob
    using assms by (simp add: same_keys_def)
  then show ?thesis
    unfolding broadcast_def Let_def split_def by (rule evict_same_keys)
qed

lemma send_to_players_same_keys:
  assumes "same_keys s"
  shows "same_keys (send_to_players ok pids m s)"
proof -
  have "same_keys (s\<lparr>outbox := ob\<rparr>)" for ob
    using assms by (simp add: same_keys_def)
  then show ?thesis
    unfolding send_to_players_def Let_def split_def by (rule evict_same_keys)
qed

lemma cleanup_same_keys:
  assumes "same_keys s"
  shows "same_keys (cleanup ok w s)"
proof -
  have "same_keys (s\<lparr>connections := AList.delete (player_id (conn s w)) (connections s),
                      players := AList.delete (player_id (conn s w)) (players s)\<rparr>)"
    using assms unfolding same_keys_def by (simp add: keys_delete)
  then have "same_keys (broadcast ok (PlayerLeft (player_id (conn s w))) None
                 (s\<lparr>connections := AList.delete (player_id (conn s w)) (connections s),
                      players := AList.delete (player_id (conn s w)) (players s)\<rparr>))"
    by (rule broadcast_same_keys)
  then show ?thesis
    by (simp add: cleanup_def Let_def same_keys_def)
qed

lemma register_same_keys:
  assumes "same_keys s"
  shows "same_keys (snd (register ok w n s))"
proof -
  define s1 where "s1 = s\<lparr>conn := (conn s)(w := (conn s w)\<lparr>h_phase := Joined,
         h_player := \<lparr>pl_id = player_id (conn s w), pl_name = n, pl_x = 100, pl_y = 100,
                      pl_zone = ''town''\<rparr>\<rparr>),
       players := AList.update (player_id (conn s w)) w (players s),
       connections := AList.update (player_id (conn s w)) w (connections s)\<rparr>"
  have k1: "same_keys s1"
    using assms unfolding same_keys_def s1_def by (simp add: keys_update)
  have k2: "same_keys (s1\<lparr>outbox := ob\<rparr>)" for ob
    using k1 by (simp add: same_keys_def)
  show ?thesis
  proof (cases "ok w")
    case True
    then have "\<exists>m ob. snd (register ok w n s)
                 = broadcast ok m (Some (player_id (conn s w))) (s1\<lparr>outbox := ob\<rparr>)"
      by (simp add: register_def Let_def ws_send_def s1_def) blast
    then show ?thesis
      using k2 broadcast_same_keys by metis
  next
    case False
    then have "snd (register ok w n s) = s1"
      by (simp add: register_def Let_def ws_send_def s1_def)
    then show ?thesis
      using k1 by simp
  qed
qed

text \<open>
  Claim C9 says that after every operation that changes the registry, \<open>players\<close> and
  \<open>connections\<close> have the same keys. The \<open>move\<close> handler breaks it: line 108 stores the
  player again under its id, also when a failed write has evicted that player in the
  meantime, and nothing is stored in \<open>connections\<close>. Evaluated in the town of three: the
  write to the second player fails while the first player's move is broadcast, which
  evicts the second player from both dictionaries; the second connection then handles a
  \<open>move\<close> of its own. Afterwards \<open>players\<close> has the key of the second player and
  \<open>connections\<close> has not.
\<close>

theorem evicted_player_reentered:
  "map fst (players (run [(env_down 2, Receive 1 (Some (move_msg 10 20))),
                          (env_ok, Receive 2 (Some (move_msg 5 5)))] town))
     = [''aaaa-1'', ''cccc-3'', ''bbbb-2'']
   \<and> map fst (connections (run [(env_down 2, Receive 1 (Some (move_msg 10 20))),
                                (env_ok, Receive 2 (Some (move_msg 5 5)))] town))
     = [''aaaa-1'', ''cccc-3'']
   \<and> same_keys town
   \<and> \<not> same_keys (run [(env_down 2, Receive 1 (Some (move_msg 10 20))),
                        (env_ok, Receive 2 (Some (move_msg 5 5)))] town)"
proof -
  let ?s = "run [(env_down 2, Receive 1 (Some (move_msg 10 20))),
                 (env_ok, Receive 2 (Some (move_msg 5 5)))] town"
  have p: "map fst (players ?s) = [''aaaa-1'', ''cccc-3'', ''bbbb-2'']"
    by (simp add: example_defs hub_defs)
  have c: "map fst (connections ?s) = [''aaaa-1'', ''cccc-3'']"
    by (simp add: example_defs hub_defs)
  have t: "same_keys town"
    by (simp add: same_keys_def example_defs)
  have "''bbbb-2'' \<in> set (map fst (players ?s))"
    unfolding p by simp
  moreover have "''bbbb-2'' \<notin> set (map fst (connections ?s))"
    unfolding c by simp
  ultimately have "set (map fst (players ?s)) \<noteq> set (map fst (connections ?s))"
    by blast
  then have n: "\<not> same_keys ?s"
    unfolding same_keys_def set_map .
  show ?thesis
    using p c t n by blast
qed

end
